theory Spec2Isabelle
  imports Main "HOL-Library.Sublist"
begin

section \<open>Menu trees and the selected key\<close>

text \<open>
  The layouts build their menus as arrays of object literals (layouts/next.tsx, the
  legacy layouts in layouts/components/header/index.tsx) or through \<open>getItem\<close>
  (the Sidebar in pages/user-setting/index.tsx). A node carries a key, a label (here the
  argument given to the translation function \<open>t\<close>), an optional icon (here the name of
  the icon component), optional children and, in the Sidebar, an optional type.
  A field that the literal leaves out is \<open>None\<close>.
\<close>

datatype menu_item =
  MenuItem (key: string) (label: string) (icon: "string option")
    (children: "menu_item list option") (item_type: "string option")

text \<open>JavaScript's \<open>s.startsWith(k)\<close>, by recursion on both strings.\<close>

fun startsWith :: "string \<Rightarrow> string \<Rightarrow> bool" where
  "startsWith s [] = True"
| "startsWith [] (c # cs) = False"
| "startsWith (x # xs) (c # cs) = (x = c \<and> startsWith xs cs)"

text \<open>
  \<open>menuItems.find((item) => pathname.startsWith(item.key))?.key || dflt\<close>, the
  expression every \<open>selectedKey\<close> of the layouts returns. \<open>find\<close> walks the top-level
  array in order; \<open>?.key\<close> of no item is undefined, and \<open>||\<close> replaces undefined and
  the empty string (both falsy) by the default.
  This is the whole body of \<open>selectedKey\<close> in the three layouts of
  layouts/components/header/index.tsx; the copy in layouts/next.tsx runs two more
  statements first and is \<open>selectedKey_next\<close> below.
\<close>

definition selectedKey :: "string \<Rightarrow> menu_item list \<Rightarrow> string \<Rightarrow> string" where
  "selectedKey pathname menuItems dflt =
     (case find (\<lambda>item. startsWith pathname (key item)) menuItems of
        None \<Rightarrow> dflt
      | Some item \<Rightarrow> if key item = [] then dflt else key item)"

text \<open>The menu of layouts/next.tsx (lines 22 to 73).\<close>

definition leaf :: "string \<Rightarrow> string \<Rightarrow> menu_item" where
  "leaf k l = MenuItem k l None None None"

definition menuItems_next :: "menu_item list" where
  "menuItems_next =
     [ MenuItem ''/knowledge'' ''knowledgeBase'' (Some ''KnowledgeBaseIcon'') None None,
       MenuItem ''/chat'' ''chat'' (Some ''MessageOutlined'') None None,
       MenuItem ''/search'' ''search'' (Some ''SearchOutlined'') None None,
       MenuItem ''/flow'' ''flow'' (Some ''GraphIcon'') None None,
       MenuItem ''/file'' ''fileManager'' (Some ''FileIcon'') None None,
       MenuItem ''/user'' ''userManager'' (Some ''FileIcon'')
         (Some [ leaf ''/user/profile'' ''profile'',
                 leaf ''/user/password'' ''password'',
                 leaf ''/user/team'' ''team'',
                 leaf ''/user/locale'' ''setting'',
                 leaf ''/user/logout'' ''logout'' ]) None,
       MenuItem ''/system'' ''systemManager'' (Some ''FileIcon'')
         (Some [ leaf ''/system/settingmodel'' ''modelProvider'',
                 leaf ''/system/sysinfo'' ''systeminfo'',
                 leaf ''/system/api'' ''api'' ]) None ]"

text \<open>
  The menu of the legacy layout with the user and system groups
  (layouts/components/header/index.tsx, lines 252 to 302).
\<close>

definition menuItems_legacy :: "menu_item list" where
  "menuItems_legacy =
     [ MenuItem ''/knowledge'' ''knowledgeBase'' (Some ''KnowledgeBaseIcon'') None None,
       MenuItem ''/chat'' ''chat'' (Some ''MessageOutlined'') None None,
       MenuItem ''/search'' ''search'' (Some ''SearchOutlined'') None None,
       MenuItem ''/flow'' ''flow'' (Some ''GraphIcon'') None None,
       MenuItem ''/file'' ''fileManager'' (Some ''FileIcon'') None None,
       MenuItem ''/user'' ''userManager'' (Some ''UserIcon'')
         (Some [ leaf ''/user/profile'' ''profile'',
                 leaf ''/user/password'' ''password'',
                 leaf ''/user/team'' ''team'',
                 leaf ''/user/logout'' ''logout'' ]) None,
       MenuItem ''/system'' ''systemManager'' (Some ''SysIcon'')
         (Some [ leaf ''/system/settingmodel'' ''modelProvider'',
                 leaf ''/system/sysinfo'' ''systeminfo'',
                 leaf ''/system/api'' ''api'' ]) None ]"

text \<open>
  What the layouts hand to the \<open>Menu\<close> component: \<open>selectedKeys={[selectedKey]}\<close> and
  \<open>items={menuItems}\<close>. No layout passes \<open>openKeys\<close> or \<open>defaultOpenKeys\<close>;
  the Sidebar passes \<open>defaultOpenKeys\<close>.
\<close>

record menu_props =
  selectedKeys :: "string list"
  openKeys :: "string list option"
  defaultOpenKeys :: "string list option"
  items :: "menu_item list"

definition menu_of_layout :: "menu_item list \<Rightarrow> string \<Rightarrow> string \<Rightarrow> menu_props" where
  "menu_of_layout menuItems dflt pathname =
     \<lparr> selectedKeys = [selectedKey pathname menuItems dflt],
       openKeys = None,
       defaultOpenKeys = None,
       items = menuItems \<rparr>"

definition App_menu :: "string \<Rightarrow> menu_props" where
  "App_menu = menu_of_layout menuItems_legacy ''/knowledge''"

text \<open>
  \<open>selectedKey\<close> of layouts/next.tsx (lines 75 to 83). Before the \<open>return\<close> its
  callback binds \<open>pathname.split('/')[1]\<close> to a name it never reads and then calls
  \<open>useLogout()\<close>. A name with no binding in scope raises a ReferenceError when it is
  evaluated; the names in scope at that call are the file's imports, the two it
  destructures from \<open>Layout\<close>, the component, and the component's and the callback's
  own constants.
\<close>

datatype js_error = ReferenceError string

definition next_tsx_bindings :: "string list" where
  "next_tsx_bindings =
     [ ''FileIcon'', ''GraphIcon'', ''KnowledgeBaseIcon'', ''useTranslate'',
       ''useNavigateWithFromState'', ''Routes'', ''MessageOutlined'', ''SearchOutlined'',
       ''Divider'', ''Layout'', ''Menu'', ''useMemo'', ''Outlet'', ''useLocation'',
       ''styles'', ''Header'', ''Sider'', ''Content'', ''NextLayout'',
       ''t'', ''pathname'', ''navigate'', ''menuItems'', ''basePath'' ]"

definition selectedKey_next :: "string \<Rightarrow> js_error + string" where
  "selectedKey_next pathname =
     (if ''useLogout'' \<in> set next_tsx_bindings
      then Inr (selectedKey pathname menuItems_next ''/knowledge'')
      else Inl (ReferenceError ''useLogout''))"

text \<open>
  The component evaluates \<open>selectedKey\<close> before it renders the \<open>Menu\<close>: an error
  there leaves the render, and no menu is built.
\<close>

definition NextLayout_menu :: "string \<Rightarrow> js_error + menu_props" where
  "NextLayout_menu pathname =
     (case selectedKey_next pathname of
        Inl err \<Rightarrow> Inl err
      | Inr k \<Rightarrow> Inr \<lparr> selectedKeys = [k], openKeys = None, defaultOpenKeys = None,
                        items = menuItems_next \<rparr>)"

text \<open>Every key of a tree, a node before its children, in document order.\<close>

fun keys_of :: "menu_item \<Rightarrow> string list" where
  "keys_of (MenuItem k l i cs ty) =
     k # (case cs of None \<Rightarrow> [] | Some xs \<Rightarrow> concat (map keys_of xs))"

definition tree_keys :: "menu_item list \<Rightarrow> string list" where
  "tree_keys menuItems = concat (map keys_of menuItems)"

text \<open>
  The menu of the header's NextLayout (layouts/components/header/index.tsx, lines 386 to
  422). Its keys and its default are members of the enum \<open>Routes\<close> of \<open>@/routes\<close>,
  which is not among the sources: the enum's values are a parameter.
\<close>

record routes =
  Home :: string
  Datasets :: string
  Chats :: string
  Searches :: string
  Agents :: string
  Files :: string

definition menuItems_header :: "routes \<Rightarrow> menu_item list" where
  "menuItems_header R =
     [ MenuItem (Datasets R) ''knowledgeBase'' (Some ''Library'') None None,
       MenuItem (Chats R) ''chat'' (Some ''MessageSquareText'') None None,
       MenuItem (Searches R) ''search'' (Some ''Search'') None None,
       MenuItem (Agents R) ''flow'' (Some ''Cpu'') None None,
       MenuItem (Files R) ''fileManager'' (Some ''File'') None None ]"

definition header_NextLayout_menu :: "routes \<Rightarrow> string \<Rightarrow> menu_props" where
  "header_NextLayout_menu R = menu_of_layout (menuItems_header R) (Home R)"

subsection \<open>The Sidebar\<close>

text \<open>
  pages/user-setting/index.tsx, lines 478 to 572. \<open>getItem\<close> takes the label first.
\<close>

definition getItem ::
  "string \<Rightarrow> string \<Rightarrow> string option \<Rightarrow> menu_item list option \<Rightarrow> string option \<Rightarrow> menu_item"
where
  "getItem l k i cs ty = MenuItem k l i cs ty"

definition mainMenuItems :: "menu_item list" where
  "mainMenuItems =
     [ getItem ''knowledgeBase'' ''/datasets'' (Some ''KnowledgeBaseIcon'') None None,
       getItem ''chat'' ''/next-chats'' (Some ''ChatIcon'') None None,
       getItem ''search'' ''/next-searches'' (Some ''SearchIcon'') None None,
       getItem ''flow'' ''/agents'' (Some ''CpuIcon'') None None,
       getItem ''fileManager'' ''/files'' (Some ''FileIcon'') None None ]"

definition systemManagementItems :: "menu_item list" where
  "systemManagementItems =
     [ getItem ''sidebar.dataSource'' ''/user-setting/data-source'' None None None,
       getItem ''sidebar.modelProvider'' ''/user-setting/model'' None None None,
       getItem ''sidebar.mcp'' ''/user-setting/mcp'' None None None,
       getItem ''sidebar.api'' ''/user-setting/api'' None None None,
       getItem ''sidebar.sysinfo'' ''/user-setting/system'' None None None ]"

definition userManagementItems :: "menu_item list" where
  "userManagementItems =
     [ getItem ''sidebar.profile'' ''/user-setting/profile'' None None None,
       getItem ''sidebar.teamManagement'' ''/user-setting/team'' None None None ]"

text \<open>Both group headers are built with the empty string as their key.\<close>

definition Sidebar_items :: "menu_item list" where
  "Sidebar_items =
     mainMenuItems @
     [ getItem ''sidebar.systemManagement'' [] (Some ''SystemIcon'')
         (Some systemManagementItems) None,
       getItem ''sidebar.userManagement'' [] (Some ''UserIcon'')
         (Some userManagementItems) None ]"

text \<open>
  \<open>getSelectedKeys\<close>: three \<open>forEach\<close> loops pushing onto one array, with the test for
  the home page between the first and the second.
\<close>

definition getSelectedKeys :: "string \<Rightarrow> string list" where
  "getSelectedKeys pathname =
     concat (map (\<lambda>item. if startsWith pathname (key item) \<and> key item \<noteq> ''/''
                          then [key item] else []) mainMenuItems)
     @ (if pathname = ''/'' \<or> pathname = ''/home'' then [''/''] else [])
     @ concat (map (\<lambda>item. if startsWith pathname (key item)
                            then [''system'', key item] else []) systemManagementItems)
     @ concat (map (\<lambda>item. if startsWith pathname (key item)
                            then [''user'', key item] else []) userManagementItems)"

definition Sidebar_menu :: "string \<Rightarrow> menu_props" where
  "Sidebar_menu pathname =
     \<lparr> selectedKeys = getSelectedKeys pathname,
       openKeys = None,
       defaultOpenKeys = Some [''system'', ''user''],
       items = Sidebar_items \<rparr>"

section \<open>Calls issued to the collaborators\<close>

text \<open>
  The hooks of \<open>@/hooks\<close>, the services of \<open>@/services\<close>, the query client and the
  router are collaborators outside the sources. A handler's calls to them are recorded,
  in the order they are issued, in a log.
  \<open>deleteTenantUser\<close> takes an object; a property the caller leaves out is \<open>None\<close>.
\<close>

record delete_payload =
  userId :: "string option"
  tenantId :: "string option"

text \<open>
  Modelled from the spec: the enum \<open>TenantRole\<close> of \<open>pages/user-setting/constants\<close>, which
  is not among the sources; the spec's data model gives the roles Owner and Normal.
\<close>

datatype TenantRole = Owner | Normal

text \<open>
  \<open>userData\<close> is the row handed to \<open>handleEditUser\<close>; \<open>form_data\<close> is the
  \<open>{ nickname, role }\<close> the edit form submits.
\<close>

record user_data =
  user_id :: string
  nickname :: string
  email :: string
  role :: TenantRole

datatype form_data = FormData (form_nickname: string) (form_role: TenantRole)

datatype effect =
    AddTenantUser string
  | DeleteTenantUser delete_payload
  | AgreeTenant string
  | UpdateUserStatus string string
  | InvalidateQueries "string list"
  | Navigate string
  | ConsoleLog string "string option" form_data
  | ConsoleError string string

text \<open>
  \<open>navigate\<close> is what \<open>useNavigateWithFromState()\<close> returns; the call is recorded.
\<close>

definition navigate :: "string \<Rightarrow> effect list \<Rightarrow> effect list" where
  "navigate path cs = cs @ [Navigate path]"

text \<open>\<open>handleMenuClick\<close> of the Sidebar, on the event's \<open>key\<close>.\<close>

definition handleMenuClick :: "string \<Rightarrow> effect list \<Rightarrow> effect list" where
  "handleMenuClick k cs = (if startsWith k ''/'' then navigate k cs else cs)"

section \<open>The handlers of the team page\<close>

text \<open>
  What awaiting a collaborator's promise gives: the value it is fulfilled with, or the
  error it is rejected with. The tenant hooks are fulfilled with a result code.
\<close>

datatype 'a promise = Fulfilled 'a | Rejected string

text \<open>
  Modelled from the spec: \<open>showDeleteConfirm\<close> of \<open>@/hooks/common-hooks\<close>, which is not
  among the sources. The spec's confirmation step: the dialog is presented with its
  options and nothing else happens; confirming runs \<open>onOk\<close> once and closes the dialog;
  cancelling closes it. The two \<open>onOk\<close> closures of the page are named by the values they
  capture.
\<close>

datatype on_ok = DeleteUserOnOk string | QuitTenantOnOk string string

record confirm_options =
  title :: string
  onOk :: on_ok

text \<open>
  The state of the page's hooks: the two visibility flags of \<open>useSetModalState\<close>, the
  \<open>editingUser\<close> of \<open>useState\<close>, the confirmation dialog on screen, and the calls issued
  so far.
\<close>

record page =
  addingTenantModalVisible :: bool
  editingUserModalVisible :: bool
  editingUser :: "user_data option"
  confirmDialog :: "confirm_options option"
  calls :: "effect list"

definition page0 :: page where
  "page0 = \<lparr> addingTenantModalVisible = False, editingUserModalVisible = False,
             editingUser = None, confirmDialog = None, calls = [] \<rparr>"

definition issue :: "effect \<Rightarrow> page \<Rightarrow> page" where
  "issue e s = s\<lparr>calls := calls s @ [e]\<rparr>"

text \<open>
  Modelled from the spec: \<open>useSetModalState\<close> of \<open>@/hooks/common-hooks\<close>, which is not
  among the sources. The spec's dialog is Closed or Open: \<open>showModal\<close> opens it,
  \<open>hideModal\<close> closes it.
\<close>

definition showAddingTenantModal :: "page \<Rightarrow> page" where
  "showAddingTenantModal s = s\<lparr>addingTenantModalVisible := True\<rparr>"

definition hideAddingTenantModal :: "page \<Rightarrow> page" where
  "hideAddingTenantModal s = s\<lparr>addingTenantModalVisible := False\<rparr>"

definition showEditingUserModal :: "page \<Rightarrow> page" where
  "showEditingUserModal s = s\<lparr>editingUserModalVisible := True\<rparr>"

definition hideEditingUserModal :: "page \<Rightarrow> page" where
  "hideEditingUserModal s = s\<lparr>editingUserModalVisible := False\<rparr>"

subsection \<open>useAddUser\<close>

text \<open>
  \<open>handleAddUserOk\<close>: the call is issued first, whatever the email; \<open>reply\<close> is what
  awaiting it gives. A rejection leaves the handler at the \<open>await\<close>.
\<close>

definition handleAddUserOk ::
  "(string \<Rightarrow> int promise) \<Rightarrow> string \<Rightarrow> page \<Rightarrow> unit promise \<times> page"
where
  "handleAddUserOk reply email_in s =
     (let s1 = issue (AddTenantUser email_in) s in
      case reply email_in of
        Rejected err \<Rightarrow> (Rejected err, s1)
      | Fulfilled code \<Rightarrow>
          (Fulfilled (), if code = 0 then hideAddingTenantModal s1 else s1))"

text \<open>
  Modelled from the spec: the invite form, the dialog that calls \<open>handleAddUserOk\<close> as
  its \<open>onOk\<close>, which is not among the sources. The spec's InviteUser requires the email
  to be non-empty and of valid format, and for all forms the checks occur before any
  remote call, a failure is reported inline and no call is issued. As in
  \<open>EditUserModal\<close>, the form hands its data to \<open>onOk\<close> only when no issue is
  reported. The spec does not say which format is valid: the format check is a parameter.
\<close>

datatype invite_issue = EmailRequired | EmailInvalid

definition inviteSchema :: "(string \<Rightarrow> bool) \<Rightarrow> string \<Rightarrow> invite_issue list" where
  "inviteSchema valid_format email_in =
     (if length email_in < 1 then [EmailRequired]
      else if valid_format email_in then [] else [EmailInvalid])"

definition InviteUser ::
  "(string \<Rightarrow> bool) \<Rightarrow> (string \<Rightarrow> int promise) \<Rightarrow> string \<Rightarrow> page
     \<Rightarrow> invite_issue list \<times> page"
where
  "InviteUser valid_format reply email_in s =
     (case inviteSchema valid_format email_in of
        [] \<Rightarrow> ([], snd (handleAddUserOk reply email_in s))
      | issue1 # more_issues \<Rightarrow> (issue1 # more_issues, s))"

subsection \<open>useHandleDeleteUser, useHandleQuitUser and the confirmation dialog\<close>

definition showDeleteConfirm :: "confirm_options \<Rightarrow> page \<Rightarrow> page" where
  "showDeleteConfirm opts s = s\<lparr>confirmDialog := Some opts\<rparr>"

definition handleDeleteTenantUser :: "string \<Rightarrow> page \<Rightarrow> page" where
  "handleDeleteTenantUser uid s =
     showDeleteConfirm \<lparr> title = ''setting.sureDelete'', onOk = DeleteUserOnOk uid \<rparr> s"

definition handleQuitTenantUser :: "string \<Rightarrow> string \<Rightarrow> page \<Rightarrow> page" where
  "handleQuitTenantUser uid tid s =
     showDeleteConfirm \<lparr> title = ''setting.sureQuit'', onOk = QuitTenantOnOk uid tid \<rparr> s"

text \<open>
  The bodies of the two \<open>onOk\<close> closures. The first awaits
  \<open>deleteTenantUser({ userId })\<close> and does nothing with the code; the second does not
  await its call.
\<close>

fun run_onOk ::
  "(delete_payload \<Rightarrow> int promise) \<Rightarrow> on_ok \<Rightarrow> page \<Rightarrow> unit promise \<times> page"
where
  "run_onOk reply (DeleteUserOnOk uid) s =
     (let payload = \<lparr> userId = Some uid, tenantId = None \<rparr>;
          s1 = issue (DeleteTenantUser payload) s in
      case reply payload of
        Rejected err \<Rightarrow> (Rejected err, s1)
      | Fulfilled code \<Rightarrow> (Fulfilled (), s1))"
| "run_onOk reply (QuitTenantOnOk uid tid) s =
     (Fulfilled (), issue (DeleteTenantUser \<lparr> userId = Some uid, tenantId = Some tid \<rparr>) s)"

definition confirm_ok :: "(delete_payload \<Rightarrow> int promise) \<Rightarrow> page \<Rightarrow> page" where
  "confirm_ok reply s =
     (case confirmDialog s of
        None \<Rightarrow> s
      | Some opts \<Rightarrow> snd (run_onOk reply (onOk opts) (s\<lparr>confirmDialog := None\<rparr>)))"

definition confirm_cancel :: "page \<Rightarrow> page" where
  "confirm_cancel s = s\<lparr>confirmDialog := None\<rparr>"

subsection \<open>useHandleAgreeTenant\<close>

text \<open>
  \<open>user\<close> is the data of \<open>useFetchUserInfo()\<close>; its \<open>id\<close> is undefined until the
  user's record has been fetched. Neither call is awaited.
\<close>

datatype user_info = UserInfo (id_of: "string option")

definition handleAgree :: "user_info \<Rightarrow> string \<Rightarrow> bool \<Rightarrow> page \<Rightarrow> page" where
  "handleAgree user tid isAgree s =
     (if isAgree then issue (AgreeTenant tid) s
      else issue (DeleteTenantUser \<lparr> userId = id_of user, tenantId = Some tid \<rparr>) s)"

subsection \<open>useUpdateUserStatus\<close>

text \<open>
  The three options handed to \<open>useMutation\<close>, and \<open>mutate\<close> as the query library
  runs them: it calls \<open>mutationFn\<close> with the variables, then \<open>onSuccess\<close> when the
  promise is fulfilled and \<open>onError\<close> when it is rejected. The value
  \<open>updateUserStatus\<close> is fulfilled with is never read; its type is left open.
\<close>

definition mutationFn ::
  "(string \<Rightarrow> string \<Rightarrow> 'r promise) \<Rightarrow> string \<Rightarrow> bool \<Rightarrow> page \<Rightarrow> 'r promise \<times> page"
where
  "mutationFn reply email_in isActive s =
     (let state = (if isActive then ''on'' else ''off'') in
      (reply email_in state, issue (UpdateUserStatus email_in state) s))"

definition onSuccess :: "page \<Rightarrow> page" where
  "onSuccess s = issue (InvalidateQueries [''listTenantUser'']) s"

definition onError :: "string \<Rightarrow> page \<Rightarrow> page" where
  "onError err s = issue (ConsoleError ''Failed to update user status:'' err) s"

definition mutate ::
  "(string \<Rightarrow> string \<Rightarrow> 'r promise) \<Rightarrow> string \<Rightarrow> bool \<Rightarrow> page \<Rightarrow> page"
where
  "mutate reply email_in isActive s =
     (case mutationFn reply email_in isActive s of
        (Fulfilled r, s1) \<Rightarrow> onSuccess s1
      | (Rejected err, s1) \<Rightarrow> onError err s1)"

text \<open>The query keys invalidated by a list of calls, in order.\<close>

fun invalidated :: "effect list \<Rightarrow> string list list" where
  "invalidated [] = []"
| "invalidated (InvalidateQueries k # es) = k # invalidated es"
| "invalidated (e # es) = invalidated es"

subsection \<open>useEditUser and the edit form\<close>

definition handleEditUser :: "user_data \<Rightarrow> page \<Rightarrow> page" where
  "handleEditUser userData s = showEditingUserModal (s\<lparr>editingUser := Some userData\<rparr>)"

text \<open>
  \<open>handleEditUserOk\<close>: one line on the console, then the dialog is hidden and the
  buffer reset; the promise of the async function is fulfilled.
\<close>

definition handleEditUserOk :: "form_data \<Rightarrow> page \<Rightarrow> unit promise \<times> page" where
  "handleEditUserOk d s =
     (let s1 = issue (ConsoleLog ''Would update user:'' (map_option user_id (editingUser s)) d) s;
          s2 = hideEditingUserModal s1
      in (Fulfilled (), s2\<lparr>editingUser := None\<rparr>))"

text \<open>
  The edit form of \<open>EditUserModal\<close>: \<open>formSchema\<close> asks for a nickname of at least one
  character (any member of \<open>TenantRole\<close> is accepted), and \<open>form.handleSubmit(handleOk)\<close>
  hands the data to \<open>onOk\<close> only when the schema reports no issue. An issue is the
  field's name with its message.
\<close>

definition formSchema :: "form_data \<Rightarrow> (string \<times> string) list" where
  "formSchema d =
     (if length (form_nickname d) < 1 then [(''nickname'', ''common.required'')] else [])"

definition EditUserModal_submit :: "form_data \<Rightarrow> page \<Rightarrow> (string \<times> string) list \<times> page" where
  "EditUserModal_submit d s =
     (case formSchema d of
        [] \<Rightarrow> ([], snd (handleEditUserOk d s))
      | issue1 # more_issues \<Rightarrow> (issue1 # more_issues, s))"

section \<open>Properties of the menus\<close>

lemma startsWith_prefix: "startsWith s k = prefix k s"
  by (induction s k rule: startsWith.induct) auto

lemma find_first_match:
  "\<forall>x\<in>set xs. \<not> P x \<Longrightarrow> P y \<Longrightarrow> find P (xs @ y # ys) = Some y"
  by (induction xs) auto

lemma find_no_match: "\<forall>x\<in>set xs. \<not> P x \<Longrightarrow> find P xs = None"
  by (induction xs) auto

lemma selectedKey_first_match:
  assumes "\<forall>x\<in>set xs. \<not> startsWith pathname (key x)"
    and "startsWith pathname (key item)" and "key item \<noteq> []"
  shows "selectedKey pathname (xs @ item # ys) dflt = key item"
  using assms by (simp add: selectedKey_def find_first_match)

lemma selectedKey_no_match:
  assumes "\<forall>x\<in>set menuItems. \<not> startsWith pathname (key x)"
  shows "selectedKey pathname menuItems dflt = dflt"
  using assms by (simp add: selectedKey_def find_no_match)

lemma tree_keys_next:
  "tree_keys menuItems_next =
     [''/knowledge'', ''/chat'', ''/search'', ''/flow'', ''/file'',
      ''/user'', ''/user/profile'', ''/user/password'', ''/user/team'', ''/user/locale'',
      ''/user/logout'',
      ''/system'', ''/system/settingmodel'', ''/system/sysinfo'', ''/system/api'']"
  by (simp add: tree_keys_def menuItems_next_def leaf_def)

lemma tree_keys_legacy:
  "tree_keys menuItems_legacy =
     [''/knowledge'', ''/chat'', ''/search'', ''/flow'', ''/file'',
      ''/user'', ''/user/profile'', ''/user/password'', ''/user/team'', ''/user/logout'',
      ''/system'', ''/system/settingmodel'', ''/system/sysinfo'', ''/system/api'']"
  by (simp add: tree_keys_def menuItems_legacy_def leaf_def)

lemma tree_keys_Sidebar:
  "tree_keys Sidebar_items =
     [''/datasets'', ''/next-chats'', ''/next-searches'', ''/agents'', ''/files'',
      [], ''/user-setting/data-source'', ''/user-setting/model'', ''/user-setting/mcp'',
      ''/user-setting/api'', ''/user-setting/system'',
      [], ''/user-setting/profile'', ''/user-setting/team'']"
  by (simp add: tree_keys_def Sidebar_items_def mainMenuItems_def systemManagementItems_def
      userManagementItems_def getItem_def)

lemma selectedKey_next_raises:
  "selectedKey_next pathname = Inl (ReferenceError ''useLogout'')"
  by (simp add: selectedKey_next_def next_tsx_bindings_def)

lemma selectedKey_legacy_user_profile_edit:
  "selectedKey ''/user/profile/edit'' menuItems_legacy ''/knowledge'' = ''/user''"
  by (simp add: selectedKey_def menuItems_legacy_def)

lemma selectedKey_independent_of_children:
  "selectedKey pathname (map (\<lambda>m. MenuItem (key m) (label m) (icon m) None (item_type m)) menuItems) dflt
     = selectedKey pathname menuItems dflt"
proof -
  have "find (\<lambda>item. startsWith pathname (key item))
          (map (\<lambda>m. MenuItem (key m) (label m) (icon m) None (item_type m)) xs)
        = map_option (\<lambda>m. MenuItem (key m) (label m) (icon m) None (item_type m))
            (find (\<lambda>item. startsWith pathname (key item)) xs)" for xs
    by (induction xs) auto
  then show ?thesis
    by (simp add: selectedKey_def split: option.splits)
qed

lemma distinct_tree_keys_next: "distinct (tree_keys menuItems_next)"
  by (simp add: tree_keys_next)

lemma distinct_tree_keys_legacy: "distinct (tree_keys menuItems_legacy)"
  by (simp add: tree_keys_legacy)

lemma Sidebar_defaultOpenKeys_not_keys:
  "defaultOpenKeys (Sidebar_menu pathname) = Some [''system'', ''user'']"
  "''system'' \<notin> set (tree_keys Sidebar_items)"
  "''user'' \<notin> set (tree_keys Sidebar_items)"
  by (simp_all add: Sidebar_menu_def tree_keys_Sidebar)

subsection \<open>Longest prefix and open keys\<close>

text \<open>
  C1, as stated, fails. The tree of the legacy layout holds the keys /user and
  /user/profile, and for the path /user/profile/edit the only selected key is /user:
  \<open>find\<close> walks the top-level items and stops at the first whose key begins the path,
  so /user/profile, a child, is never compared. No open keys are handed to the menu.
\<close>

theorem user_profile_edit_selects_user_only:
  "''/user'' \<in> set (tree_keys menuItems_legacy)
   \<and> ''/user/profile'' \<in> set (tree_keys menuItems_legacy)
   \<and> selectedKeys (App_menu ''/user/profile/edit'') = [''/user'']
   \<and> ''/user/profile'' \<notin> set (selectedKeys (App_menu ''/user/profile/edit''))
   \<and> openKeys (App_menu ''/user/profile/edit'') = None"
  by (simp add: tree_keys_legacy App_menu_def menu_of_layout_def
      selectedKey_legacy_user_profile_edit)

text \<open>
  C1, amended: in every menu tree whose top-level items hold the key /user, with no
  earlier top-level key beginning the path, the path /user/profile/edit selects exactly
  /user, whatever the children of that item are (/user/profile among them or not), and
  the menu is given no open keys.
\<close>

theorem user_profile_edit_selects_first_top_level_match:
  assumes "\<forall>x\<in>set xs. \<not> startsWith ''/user/profile/edit'' (key x)"
  shows "selectedKeys (menu_of_layout (xs @ MenuItem ''/user'' l i cs ty # ys) dflt
            ''/user/profile/edit'') = [''/user'']
         \<and> openKeys (menu_of_layout (xs @ MenuItem ''/user'' l i cs ty # ys) dflt
            ''/user/profile/edit'') = None"
proof -
  have "selectedKey ''/user/profile/edit'' (xs @ MenuItem ''/user'' l i cs ty # ys) dflt
        = key (MenuItem ''/user'' l i cs ty)"
    using assms by (intro selectedKey_first_match) simp_all
  then show ?thesis
    by (simp add: menu_of_layout_def)
qed

theorem user_profile_edit_selects_first_top_level_match_witness:
  "selectedKeys (App_menu ''/user/profile/edit'') = [''/user'']
   \<and> openKeys (App_menu ''/user/profile/edit'') = None"
  using user_profile_edit_selects_first_top_level_match
    [of "take 5 menuItems_legacy" "''userManager''" "Some ''UserIcon''"
        "children (menuItems_legacy ! 5)" None "drop 6 menuItems_legacy" "''/knowledge''"]
  by (simp add: App_menu_def menuItems_legacy_def)

subsection \<open>The default selection\<close>

lemma selectedKey_default_when_no_top_level_key_matches:
  assumes "\<forall>item\<in>set menuItems. \<not> startsWith pathname (key item)"
  shows "selectedKeys (menu_of_layout menuItems dflt pathname) = [dflt]"
  using assms by (simp add: menu_of_layout_def selectedKey_no_match)

lemma App_menu_default_is_first_key:
  assumes "\<forall>item\<in>set menuItems_legacy. \<not> startsWith pathname (key item)"
  shows "selectedKeys (App_menu pathname) = [key (hd menuItems_legacy)]"
proof -
  have "key (hd menuItems_legacy) = ''/knowledge''"
    by (simp add: menuItems_legacy_def)
  with assms show ?thesis
    by (simp add: App_menu_def selectedKey_default_when_no_top_level_key_matches)
qed

lemma header_NextLayout_default_is_Home:
  assumes "\<forall>item\<in>set (menuItems_header R). \<not> startsWith pathname (key item)"
  shows "selectedKeys (header_NextLayout_menu R pathname) = [Home R]"
    and "key (hd (menuItems_header R)) = Datasets R"
  using assms
  by (simp_all add: header_NextLayout_menu_def selectedKey_default_when_no_top_level_key_matches
      menuItems_header_def)

text \<open>
  C8 fails on layouts/next.tsx. For the path /unknown, as for every path, its
  \<open>selectedKey\<close> raises a ReferenceError at the call of \<open>useLogout\<close>, a name the file
  never binds, before it reaches the expression that would return the default; the
  component renders no menu. The legacy layout, whose \<open>selectedKey\<close> is that expression
  alone, does return the default for /unknown, and the default is the key of its first
  top-level item.
\<close>

theorem NextLayout_selectedKey_raises_for_unknown_path:
  "selectedKey_next ''/unknown'' = Inl (ReferenceError ''useLogout'')
   \<and> NextLayout_menu ''/unknown'' = Inl (ReferenceError ''useLogout'')
   \<and> selectedKey ''/unknown'' menuItems_next ''/knowledge'' = key (hd menuItems_next)
   \<and> selectedKeys (App_menu ''/unknown'') = [key (hd menuItems_legacy)]"
proof -
  have "selectedKey ''/unknown'' menuItems_next ''/knowledge'' = key (hd menuItems_next)"
    by (simp add: selectedKey_def menuItems_next_def)
  moreover have "selectedKeys (App_menu ''/unknown'') = [key (hd menuItems_legacy)]"
    by (simp add: App_menu_def menu_of_layout_def selectedKey_def menuItems_legacy_def)
  ultimately show ?thesis
    by (simp add: NextLayout_menu_def selectedKey_next_raises)
qed

subsection \<open>Unique keys\<close>

text \<open>
  C9 fails on the Sidebar: its two group headers (system management and user management)
  are both built with the empty string as key, so the tree holds that key twice. The
  Sidebar itself names the groups system and user, in \<open>defaultOpenKeys\<close> and in
  \<open>getSelectedKeys\<close>, and neither is a key of the tree.
\<close>

theorem Sidebar_items_keys_not_distinct:
  "\<not> distinct (tree_keys Sidebar_items)
   \<and> count_list (tree_keys Sidebar_items) [] = 2"
  by (simp add: tree_keys_Sidebar)

subsection \<open>Clicks on the Sidebar\<close>

text \<open>
  C10: for every key handed to \<open>handleMenuClick\<close>, exactly one navigation to that key
  is issued when the key begins with a slash, and otherwise the calls are left as they
  were; so a click changes them exactly when the key begins with a slash, and a click on
  a group header, whose key is empty, changes nothing.
\<close>

theorem handleMenuClick_navigates_iff_slash:
  "handleMenuClick k cs = (if prefix ''/'' k then cs @ [Navigate k] else cs)
   \<and> (handleMenuClick k cs \<noteq> cs) = prefix ''/'' k
   \<and> handleMenuClick [] cs = cs"
  by (simp add: handleMenuClick_def navigate_def startsWith_prefix)

theorem handleMenuClick_navigates_iff_slash_witness:
  "handleMenuClick ''/datasets'' [] = [Navigate ''/datasets'']
   \<and> handleMenuClick ''system'' [Navigate ''/files''] = [Navigate ''/files'']"
  using handleMenuClick_navigates_iff_slash [of "''/datasets''" "[]"]
    handleMenuClick_navigates_iff_slash [of "''system''" "[Navigate ''/files'']"]
  by simp

section \<open>Properties of the handlers\<close>

lemma calls_issue [simp]: "calls (issue e s) = calls s @ [e]"
  by (simp add: issue_def)

lemma issue_keeps_flags [simp]:
  "addingTenantModalVisible (issue e s) = addingTenantModalVisible s"
  "editingUserModalVisible (issue e s) = editingUserModalVisible s"
  "editingUser (issue e s) = editingUser s"
  "confirmDialog (issue e s) = confirmDialog s"
  by (simp_all add: issue_def)

lemma invalidated_append: "invalidated (xs @ ys) = invalidated xs @ invalidated ys"
  by (induction xs rule: invalidated.induct) simp_all

lemma calls_handleAddUserOk:
  "calls (snd (handleAddUserOk reply e s)) = calls s @ [AddTenantUser e]"
  by (simp add: handleAddUserOk_def hideAddingTenantModal_def Let_def split: promise.splits)

subsection \<open>InviteUser\<close>

text \<open>
  C2: submitting the invite form with the empty email fails the required-field check; the
  failure is what the form reports, the page is left as it was, and no call is issued,
  \<open>addTenantUser\<close> in particular.
\<close>

theorem InviteUser_empty_email_issues_no_call:
  "fst (InviteUser valid_format reply [] s) = [EmailRequired]
   \<and> snd (InviteUser valid_format reply [] s) = s
   \<and> calls (snd (InviteUser valid_format reply [] s)) = calls s"
  by (simp add: InviteUser_def inviteSchema_def)

theorem InviteUser_empty_email_issues_no_call_witness:
  "InviteUser (\<lambda>e. True) (\<lambda>e. Fulfilled 0) [] (showAddingTenantModal page0)
     = ([EmailRequired], showAddingTenantModal page0)
   \<and> calls (snd (InviteUser (\<lambda>e. True) (\<lambda>e. Fulfilled 0) [] (showAddingTenantModal page0)))
     = []"
  using InviteUser_empty_email_issues_no_call
    [of "\<lambda>e. True" "\<lambda>e. Fulfilled 0" "showAddingTenantModal page0"]
  by (simp add: prod_eq_iff showAddingTenantModal_def page0_def)

lemma InviteUser_valid_email_issues_one_call:
  assumes "e \<noteq> []" and "valid_format e"
  shows "InviteUser valid_format reply e s = ([], snd (handleAddUserOk reply e s))"
    and "calls (snd (InviteUser valid_format reply e s)) = calls s @ [AddTenantUser e]"
  using assms by (simp_all add: InviteUser_def inviteSchema_def calls_handleAddUserOk)

text \<open>
  C3: for every email, when the invite dialog is open and the call is answered with a
  result code, the dialog is open afterwards exactly when the code is not 0: code 0 closes
  it, any other code leaves it open.
\<close>

theorem handleAddUserOk_closes_on_code_zero_only:
  assumes "addingTenantModalVisible s" and "reply e = Fulfilled code"
  shows "addingTenantModalVisible (snd (handleAddUserOk reply e s)) = (code \<noteq> 0)"
  using assms by (simp add: handleAddUserOk_def hideAddingTenantModal_def Let_def)

theorem handleAddUserOk_closes_on_code_zero_only_witness:
  "addingTenantModalVisible (showAddingTenantModal page0)
   \<and> \<not> addingTenantModalVisible
        (snd (handleAddUserOk (\<lambda>e. Fulfilled 0) ''a@b.com'' (showAddingTenantModal page0)))
   \<and> addingTenantModalVisible
        (snd (handleAddUserOk (\<lambda>e. Fulfilled 102) ''a@b.com'' (showAddingTenantModal page0)))"
  using handleAddUserOk_closes_on_code_zero_only
      [of "showAddingTenantModal page0" "\<lambda>e. Fulfilled 0" "''a@b.com''" 0]
    handleAddUserOk_closes_on_code_zero_only
      [of "showAddingTenantModal page0" "\<lambda>e. Fulfilled 102" "''a@b.com''" 102]
  by (simp add: showAddingTenantModal_def)

lemma handleAddUserOk_rejected_stays_open:
  "reply e = Rejected err \<Longrightarrow>
   addingTenantModalVisible (snd (handleAddUserOk reply e s)) = addingTenantModalVisible s"
  by (simp add: handleAddUserOk_def Let_def)

subsection \<open>RemoveUser\<close>

text \<open>
  C4: for every user id, \<open>handleDeleteTenantUser\<close> itself issues no call, it only
  presents the confirmation; cancelling the confirmation issues no call; confirming it
  issues exactly one \<open>deleteTenantUser\<close> call, for that user id.
\<close>

theorem handleDeleteTenantUser_calls_only_after_confirm:
  "calls (handleDeleteTenantUser uid s) = calls s
   \<and> calls (confirm_cancel (handleDeleteTenantUser uid s)) = calls s
   \<and> calls (confirm_ok reply (handleDeleteTenantUser uid s))
       = calls s @ [DeleteTenantUser \<lparr> userId = Some uid, tenantId = None \<rparr>]"
  by (simp add: handleDeleteTenantUser_def showDeleteConfirm_def confirm_cancel_def
      confirm_ok_def Let_def split: promise.splits)

theorem handleDeleteTenantUser_calls_only_after_confirm_witness:
  "calls (handleDeleteTenantUser ''u1'' page0) = []
   \<and> calls (confirm_cancel (handleDeleteTenantUser ''u1'' page0)) = []
   \<and> calls (confirm_ok (\<lambda>p. Fulfilled 0) (handleDeleteTenantUser ''u1'' page0))
       = [DeleteTenantUser \<lparr> userId = Some ''u1'', tenantId = None \<rparr>]"
  using handleDeleteTenantUser_calls_only_after_confirm [of "''u1''" page0 "\<lambda>p. Fulfilled 0"]
  by (simp add: page0_def)

lemma confirm_ok_twice:
  "calls (confirm_ok reply (confirm_ok reply (handleDeleteTenantUser uid s)))
     = calls s @ [DeleteTenantUser \<lparr> userId = Some uid, tenantId = None \<rparr>]"
  by (simp add: handleDeleteTenantUser_def showDeleteConfirm_def confirm_ok_def Let_def
      issue_def split: promise.splits)

subsection \<open>SetUserActive\<close>

text \<open>
  C5, as stated, fails in its second half. A remote call fails when it answers with a
  result code other than 0 or does not answer at all. Answered with the code 102,
  \<open>updateUserStatus\<close> is fulfilled, the mutation runs \<open>onSuccess\<close>, and the query key
  listTenantUser is invalidated: the code is never read.
\<close>

theorem mutate_invalidates_on_nonzero_code:
  "calls (mutate (\<lambda>e st. Fulfilled (102 :: int)) ''a@b.com'' True page0)
     = [UpdateUserStatus ''a@b.com'' ''on'', InvalidateQueries [''listTenantUser'']]
   \<and> invalidated (calls (mutate (\<lambda>e st. Fulfilled (102 :: int)) ''a@b.com'' True page0))
     = [[''listTenantUser'']]"
  by (simp add: mutate_def mutationFn_def onSuccess_def issue_def page0_def)

text \<open>
  C5, amended: for every email and activation flag, when the \<open>updateUserStatus\<close>
  promise is fulfilled, whatever it is fulfilled with (a result code other than 0
  included), the calls issued are the remote call and one invalidation, of the query key
  listTenantUser; when the promise is rejected, nothing is invalidated.
\<close>

theorem mutate_invalidates_listTenantUser_iff_fulfilled:
  "(reply e (if isActive then ''on'' else ''off'') = Fulfilled r \<longrightarrow>
      calls (mutate reply e isActive s)
        = calls s @ [UpdateUserStatus e (if isActive then ''on'' else ''off''),
                    InvalidateQueries [''listTenantUser'']]
      \<and> invalidated (calls (mutate reply e isActive s))
        = invalidated (calls s) @ [[''listTenantUser'']])
   \<and> (reply e (if isActive then ''on'' else ''off'') = Rejected err \<longrightarrow>
      invalidated (calls (mutate reply e isActive s)) = invalidated (calls s))"
  by (simp add: mutate_def mutationFn_def onSuccess_def onError_def Let_def
      invalidated_append)

theorem mutate_invalidates_listTenantUser_iff_fulfilled_witness:
  "invalidated (calls (mutate (\<lambda>e st. Fulfilled ()) ''a@b.com'' True page0))
     = [[''listTenantUser'']]
   \<and> invalidated (calls (mutate (\<lambda>e st. Rejected ''Network Error'') ''a@b.com'' False page0))
     = []"
  using mutate_invalidates_listTenantUser_iff_fulfilled
      [of "\<lambda>e st. Fulfilled ()" "''a@b.com''" True "()" page0]
    mutate_invalidates_listTenantUser_iff_fulfilled
      [of "\<lambda>e st. Rejected ''Network Error''" "''a@b.com''" False _ page0 "''Network Error''"]
  by (simp add: page0_def)

subsection \<open>AcceptOrRejectInvite\<close>

text \<open>
  C6: for every tenant id, accepting issues exactly one call, \<open>agreeTenant\<close> with that
  tenant id, and rejecting issues exactly one call, \<open>deleteTenantUser\<close> with that tenant
  id and the id of the current user.
\<close>

theorem handleAgree_issues_the_one_call:
  "calls (handleAgree user tid True s) = calls s @ [AgreeTenant tid]
   \<and> calls (handleAgree user tid False s)
       = calls s @ [DeleteTenantUser \<lparr> userId = id_of user, tenantId = Some tid \<rparr>]"
  by (simp add: handleAgree_def)

theorem handleAgree_issues_the_one_call_witness:
  "calls (handleAgree (UserInfo (Some ''me'')) ''t1'' True page0) = [AgreeTenant ''t1'']
   \<and> calls (handleAgree (UserInfo (Some ''me'')) ''t1'' False page0)
       = [DeleteTenantUser \<lparr> userId = Some ''me'', tenantId = Some ''t1'' \<rparr>]"
  using handleAgree_issues_the_one_call [of "UserInfo (Some ''me'')" "''t1''" page0]
  by (simp add: page0_def)

subsection \<open>EditUser\<close>

text \<open>
  C7, as stated, fails in its last part. Confirming an edit of user u1 ends exactly as a
  successful save would: the promise is fulfilled, the dialog is closed, the buffer is
  empty, and the page is otherwise the page before the edit began. The one trace is a
  line on the developer console; nothing tells the user that nothing was saved.
\<close>

theorem handleEditUserOk_ends_like_a_success:
  "handleEditUserOk (FormData ''Bob'' Owner)
     (handleEditUser \<lparr> user_id = ''u1'', nickname = ''Ann'', email = ''a@b.com'',
                        role = Normal \<rparr> page0)
   = (Fulfilled (),
      page0\<lparr>calls := [ConsoleLog ''Would update user:'' (Some ''u1'') (FormData ''Bob'' Owner)]\<rparr>)"
  by (simp add: handleEditUserOk_def handleEditUser_def showEditingUserModal_def
      hideEditingUserModal_def issue_def page0_def Let_def)

text \<open>
  C7, amended: confirming the edit issues no remote call; the handler writes one line to
  the console, closes the edit dialog, clears the edit buffer and is fulfilled; the
  invite dialog and the confirmation dialog are left as they were.
\<close>

theorem handleEditUserOk_closes_and_clears:
  "fst (handleEditUserOk d s) = Fulfilled ()
   \<and> calls (snd (handleEditUserOk d s))
       = calls s @ [ConsoleLog ''Would update user:'' (map_option user_id (editingUser s)) d]
   \<and> \<not> editingUserModalVisible (snd (handleEditUserOk d s))
   \<and> editingUser (snd (handleEditUserOk d s)) = None
   \<and> addingTenantModalVisible (snd (handleEditUserOk d s)) = addingTenantModalVisible s
   \<and> confirmDialog (snd (handleEditUserOk d s)) = confirmDialog s"
  by (simp add: handleEditUserOk_def hideEditingUserModal_def Let_def)

theorem handleEditUserOk_closes_and_clears_witness:
  "calls (snd (handleEditUserOk (FormData ''Bob'' Owner) (showEditingUserModal page0)))
     = [ConsoleLog ''Would update user:'' None (FormData ''Bob'' Owner)]
   \<and> \<not> editingUserModalVisible
        (snd (handleEditUserOk (FormData ''Bob'' Owner) (showEditingUserModal page0)))"
  using handleEditUserOk_closes_and_clears [of "FormData ''Bob'' Owner" "showEditingUserModal page0"]
  by (simp add: showEditingUserModal_def page0_def)

lemma EditUserModal_submit_empty_nickname:
  "EditUserModal_submit (FormData [] r) s = ([(''nickname'', ''common.required'')], s)"
  by (simp add: EditUserModal_submit_def formSchema_def)

lemma EditUserModal_submit_valid:
  "n \<noteq> [] \<Longrightarrow>
   EditUserModal_submit (FormData n r) s = ([], snd (handleEditUserOk (FormData n r) s))"
  by (cases n) (simp_all add: EditUserModal_submit_def formSchema_def)

end
